theory Spec2Isabelle
  imports Complex_Main
begin

section \<open>Fake news detection by majority voting: the decision logic of main.py\<close>

subsection \<open>Python values used by the program\<close>

text \<open>
  A Python \<^verbatim>\<open>dict\<close> keeps its entries in insertion order and has no two entries with the
  same key. It is modelled as an association list; \<open>wf_dict\<close> says that the keys are
  distinct. \<open>dict_values\<close> is \<^verbatim>\<open>list(d.values())\<close>, and \<open>dict_set\<close> is the assignment
  \<^verbatim>\<open>d[k] = v\<close>: an existing key keeps its position, a new key goes to the end.
\<close>

type_synonym ('k, 'v) dict = "('k \<times> 'v) list"

definition wf_dict :: "('k, 'v) dict \<Rightarrow> bool" where
  "wf_dict d = distinct (map fst d)"

definition dict_values :: "('k, 'v) dict \<Rightarrow> 'v list" where
  "dict_values d = map snd d"

fun dict_set :: "('k, 'v) dict \<Rightarrow> 'k \<Rightarrow> 'v \<Rightarrow> ('k, 'v) dict" where
  "dict_set [] k v = [(k, v)]"
| "dict_set ((k', v') # d) k v =
     (if k' = k then (k, v) # d else (k', v') # dict_set d k v)"

text \<open>\<^verbatim>\<open>xs.count(y)\<close>: the number of elements of the list equal to \<open>y\<close>, a Python int.\<close>

definition py_count :: "'a list \<Rightarrow> 'a \<Rightarrow> int" where
  "py_count xs y = int (count_list xs y)"

subsection \<open>The majority aggregator\<close>

text \<open>
  \<^verbatim>\<open>
  def majority_vote(pred_dict):
      preds = list(pred_dict.values())
      ones = preds.count(1)
      zeros = preds.count(0)
      final = 1 if ones > zeros else 0
      return final, ones, zeros
  \<close>
\<close>

definition majority_vote :: "('k, int) dict \<Rightarrow> int \<times> int \<times> int" where
  "majority_vote pred_dict =
     (let preds = dict_values pred_dict;
          ones = py_count preds 1;
          zeros = py_count preds 0;
          final = (if ones > zeros then 1 else 0)
      in (final, ones, zeros))"

subsection \<open>The aggregator on a store of objects\<close>

text \<open>
  The same function with its effects written out. A Python value of a compound type is
  an object in a store, named by a reference; \<open>pred_dict\<close> is a reference to a
  dictionary. \<^verbatim>\<open>list(pred_dict.values())\<close> allocates a new list object, the two
  \<^verbatim>\<open>count\<close> calls read it, and the function returns a tuple of three ints. Calling
  \<^verbatim>\<open>.values()\<close> on an object that is no dictionary raises \<^verbatim>\<open>AttributeError\<close>; a
  reference that names no object cannot arise in Python and is given the same error, so
  that the model is total.
\<close>

datatype error = IndexError | ValueError | KeyError | AttributeError

datatype obj = DictObj "(string, int) dict" | ListObj "int list"

type_synonym store = "obj list"

definition deref :: "store \<Rightarrow> nat \<Rightarrow> obj option" where
  "deref s r = (if r < length s then Some (s ! r) else None)"

definition alloc :: "store \<Rightarrow> obj \<Rightarrow> store \<times> nat" where
  "alloc s ob = (s @ [ob], length s)"

definition majority_vote_st :: "store \<Rightarrow> nat \<Rightarrow> error + ((int \<times> int \<times> int) \<times> store)" where
  "majority_vote_st s pred_dict =
     (case deref s pred_dict of
        Some (DictObj d) \<Rightarrow>
          (let (s1, preds) = alloc s (ListObj (dict_values d)) in
           case deref s1 preds of
             Some (ListObj ps) \<Rightarrow>
               (let ones = py_count ps 1;
                    zeros = py_count ps 0;
                    final = (if ones > zeros then 1 else 0)
                in Inr ((final, ones, zeros), s1))
           | _ \<Rightarrow> Inl AttributeError)
      | _ \<Rightarrow> Inl AttributeError)"

subsection \<open>The prediction adapter\<close>

text \<open>
  A classifier is an external object with a \<^verbatim>\<open>predict\<close> method and, for some
  classifiers only, a \<^verbatim>\<open>predict_proba\<close> method; \<^verbatim>\<open>hasattr(model, "predict_proba")\<close>
  is \<open>predict_proba model \<noteq> None\<close>. Both methods return one row per sample. The
  labels are integers, so that \<^verbatim>\<open>int(pred)\<close> is \<open>pred\<close>. The
  probabilities are taken as the real numbers that the floats denote: the adapter only
  selects one of them and does no arithmetic.
\<close>

record 'x classifier =
  predict :: "'x \<Rightarrow> int list"
  predict_proba :: "('x \<Rightarrow> real list list) option"

datatype call = Predict | PredictProba

text \<open>\<^verbatim>\<open>np.max\<close> of a one-dimensional array; it raises \<^verbatim>\<open>ValueError\<close> on an empty one.\<close>

fun np_max :: "real list \<Rightarrow> error + real" where
  "np_max [] = Inl ValueError"
| "np_max (x # xs) = Inr (fold max xs x)"

text \<open>
  \<^verbatim>\<open>
  def get_prediction(model, X):
      pred = model.predict(X)[0]
      conf = None
      if hasattr(model, "predict_proba"):
          proba = model.predict_proba(X)[0]
          conf = float(np.max(proba))
      return int(pred), conf
  \<close>
  The result is paired with the methods of the classifier that were invoked, in order.
  Indexing an empty result with \<^verbatim>\<open>[0]\<close> raises \<^verbatim>\<open>IndexError\<close>.
\<close>

definition get_prediction ::
  "'x classifier \<Rightarrow> 'x \<Rightarrow> call list \<times> (error + int \<times> real option)" where
  "get_prediction model X =
     (case predict model X of
        [] \<Rightarrow> ([Predict], Inl IndexError)
      | pred # _ \<Rightarrow>
          (case predict_proba model of
             None \<Rightarrow> ([Predict], Inr (pred, None))
           | Some pp \<Rightarrow>
               (case pp X of
                  [] \<Rightarrow> ([Predict, PredictProba], Inl IndexError)
                | proba # _ \<Rightarrow>
                    (case np_max proba of
                       Inl e \<Rightarrow> ([Predict, PredictProba], Inl e)
                     | Inr m \<Rightarrow> ([Predict, PredictProba], Inr (pred, Some m))))))"

subsection \<open>The handler of the Detect button\<close>

text \<open>
  What one run of the script's output column (the block under \<^verbatim>\<open>with right:\<close>) does,
  as the list of the calls it makes to the user interface, to the vectorizer and to the
  classifiers, with the exception that ended the run, if any. The texts shown are left
  out of the events; a row carries what is formatted into it.
\<close>

datatype 'c event =
    StWarning
  | StInfo
  | TfidfTransform "'c list list"
  | ModelCall string call
  | StCard bool int int
  | StHeading
  | StBlank
  | StRow string bool "real option"
  | StCaption

text \<open>
  \<^verbatim>\<open>s.strip()\<close> removes the whitespace at both ends of \<open>s\<close>. Which characters are
  whitespace is decided by the Python runtime and is a parameter here.
\<close>

definition strip :: "('c \<Rightarrow> bool) \<Rightarrow> 'c list \<Rightarrow> 'c list" where
  "strip isspace s = rev (dropWhile isspace (rev (dropWhile isspace s)))"

text \<open>
  \<^verbatim>\<open>
  for name, model in models.items():
      pred, conf = get_prediction(model, X)
      model_preds[name] = pred
      model_confs[name] = conf
  \<close>
\<close>

fun predict_all ::
  "(string, 'x classifier) dict \<Rightarrow> 'x \<Rightarrow> (string, int) dict \<Rightarrow> (string, real option) dict
     \<Rightarrow> 'c event list \<times> (error + (string, int) dict \<times> (string, real option) dict)" where
  "predict_all [] X model_preds model_confs = ([], Inr (model_preds, model_confs))"
| "predict_all ((name, model) # items) X model_preds model_confs =
     (case get_prediction model X of
        (cs, Inl e) \<Rightarrow> (map (ModelCall name) cs, Inl e)
      | (cs, Inr (pred, conf)) \<Rightarrow>
          (case predict_all items X (dict_set model_preds name pred)
                  (dict_set model_confs name conf) of
             (tr, r) \<Rightarrow> (map (ModelCall name) cs @ tr, r)))"

text \<open>
  \<^verbatim>\<open>
  for name in model_preds:
      pred_val = model_preds[name]
      result = "REAL" if pred_val == 1 else "FAKE"
      conf = model_confs[name]
      if conf is not None: st.write(name, result, conf)
      else: st.write(name, result)
  \<close>
  A missing key raises \<^verbatim>\<open>KeyError\<close>.
\<close>

fun write_rows ::
  "string list \<Rightarrow> (string, int) dict \<Rightarrow> (string, real option) dict
     \<Rightarrow> 'c event list \<times> error option" where
  "write_rows [] model_preds model_confs = ([], None)"
| "write_rows (name # names) model_preds model_confs =
     (case map_of model_preds name of
        None \<Rightarrow> ([], Some KeyError)
      | Some pred_val \<Rightarrow>
          (case map_of model_confs name of
             None \<Rightarrow> ([], Some KeyError)
           | Some conf \<Rightarrow>
               (case write_rows names model_preds model_confs of
                  (tr, e) \<Rightarrow> (StRow name (pred_val = 1) conf # tr, e))))"

text \<open>
  \<^verbatim>\<open>
  if detect_btn:
      if not news_text.strip():
          st.warning(...)
      else:
          X = tfidf.transform([news_text])
          model_preds = {}; model_confs = {}
          for name, model in models.items(): ...
          final_pred, ones, zeros = majority_vote(model_preds)
          st.markdown(card with the badge, ones and zeros)
          st.write(""); st.markdown(heading)
          for name in model_preds: ...
          st.write(""); st.caption(time)
  else:
      st.info(...)
  \<close>
\<close>

definition detect_handler ::
  "('c \<Rightarrow> bool) \<Rightarrow> ('c list list \<Rightarrow> 'x) \<Rightarrow> (string, 'x classifier) dict \<Rightarrow> bool \<Rightarrow> 'c list
     \<Rightarrow> 'c event list \<times> error option" where
  "detect_handler isspace tfidf models detect_btn news_text =
     (if detect_btn then
        (if strip isspace news_text = [] then ([StWarning], None)
         else
           (let X = tfidf [news_text] in
            case predict_all models X [] [] of
              (tr, Inl e) \<Rightarrow> (TfidfTransform [news_text] # tr, Some e)
            | (tr, Inr (model_preds, model_confs)) \<Rightarrow>
                (case majority_vote model_preds of
                   (final_pred, ones, zeros) \<Rightarrow>
                     (case write_rows (map fst model_preds) model_preds model_confs of
                        (rows, e) \<Rightarrow>
                          (TfidfTransform [news_text] # tr
                             @ [StCard (final_pred = 1) ones zeros, StBlank, StHeading]
                             @ rows
                             @ (case e of None \<Rightarrow> [StBlank, StCaption] | Some _ \<Rightarrow> []),
                           e)))))
      else ([StInfo], None))"

text \<open>The events that are inference: a call of the vectorizer or of a classifier.\<close>

fun is_inference :: "'c event \<Rightarrow> bool" where
  "is_inference (TfidfTransform _) = True"
| "is_inference (ModelCall _ _) = True"
| "is_inference _ = False"

section \<open>Properties of the majority aggregator\<close>

subsection \<open>Counting in lists and in mappings\<close>

text \<open>
  With distinct keys, the number of entries of an association list that carry the value
  \<open>v\<close> is the number of keys that the mapping sends to \<open>v\<close>.
\<close>

lemma count_list_values_card:
  "distinct (map fst d) \<Longrightarrow> count_list (map snd d) v = card {k. map_of d k = Some v}"
proof (induction d)
  case Nil
  then show ?case by simp
next
  case (Cons e d)
  obtain k w where e: "e = (k, w)" by (cases e)
  from Cons.prems e have nk: "k \<notin> fst ` set d" and dd: "distinct (map fst d)" by auto
  let ?S = "{k'. map_of d k' = Some v}"
  have fin: "finite ?S"
    by (rule finite_subset [of _ "dom (map_of d)"]) (auto simp: finite_dom_map_of)
  have nin: "k \<notin> ?S" using nk by (force dest!: map_of_SomeD)
  have S: "{k'. map_of (e # d) k' = Some v} = (if w = v then insert k ?S else ?S)"
    using nin by (auto simp: e)
  have "card {k'. map_of (e # d) k' = Some v} = (if w = v then Suc (card ?S) else card ?S)"
    unfolding S using fin nin by simp
  moreover have "count_list (map snd (e # d)) v = (if w = v then Suc (card ?S) else card ?S)"
    using Cons.IH [OF dd] by (simp add: e)
  ultimately show ?case by simp
qed

lemma count_list_filter: "count_list xs y = length (filter (\<lambda>x. x = y) xs)"
  by (induction xs) auto

lemma count_binary:
  "\<forall>v \<in> set xs. v = (0::int) \<or> v = 1 \<Longrightarrow> count_list xs 1 + count_list xs 0 = length xs"
  by (induction xs) auto

lemma count_partition:
  "count_list xs (1::int) + count_list xs 0 + length (filter (\<lambda>v. v \<noteq> 0 \<and> v \<noteq> 1) xs) = length xs"
  by (induction xs) auto

subsection \<open>The vote\<close>

text \<open>
  C1: for a non-empty mapping from classifier names to labels, all of them 0 or 1, the
  aggregator returns final label 1 when the number of names labelled 1 is strictly
  greater than the number of names labelled 0, and final label 0 otherwise, together with
  the two numbers. In particular a tie gives final label 0, and two dictionaries that
  hold the same mapping, in whatever order of entries, give the same result.
\<close>

theorem majority_vote_majority:
  assumes "wf_dict d" and "d \<noteq> []" and "\<forall>v \<in> set (dict_values d). v = 0 \<or> v = 1"
  shows "majority_vote d =
           (if card {k. map_of d k = Some 1} > card {k. map_of d k = Some 0} then 1 else 0,
            int (card {k. map_of d k = Some 1}), int (card {k. map_of d k = Some 0}))
         \<and> (card {k. map_of d k = Some 1} = card {k. map_of d k = Some 0}
              \<longrightarrow> fst (majority_vote d) = 0)
         \<and> (\<forall>d'. wf_dict d' \<and> map_of d' = map_of d \<longrightarrow> majority_vote d' = majority_vote d)"
  using assms
  by (simp add: majority_vote_def dict_values_def py_count_def wf_dict_def count_list_values_card Let_def)

theorem majority_vote_majority_witness:
  "wf_dict [(''A'', 1::int), (''B'', 0), (''C'', 1)]
   \<and> [(''A'', 1::int), (''B'', 0), (''C'', 1)] \<noteq> []
   \<and> set (dict_values [(''A'', 1::int), (''B'', 0), (''C'', 1)]) \<subseteq> {0, 1}
   \<and> majority_vote [(''A'', 1), (''B'', 0), (''C'', 1)] = (1, 2, 1)
   \<and> int (card {k. map_of [(''A'', 1::int), (''B'', 0), (''C'', 1)] k = Some 1}) = 2
   \<and> int (card {k. map_of [(''A'', 1::int), (''B'', 0), (''C'', 1)] k = Some 0}) = 1
   \<and> majority_vote [(''C'', 1), (''B'', 0), (''A'', 1)] = majority_vote [(''A'', 1), (''B'', 0), (''C'', 1)]"
proof -
  let ?d = "[(''A'', 1::int), (''B'', 0), (''C'', 1)]"
  let ?d' = "[(''C'', 1::int), (''B'', 0), (''A'', 1)]"
  have h1: "wf_dict ?d" by (simp add: wf_dict_def)
  have h2: "?d \<noteq> []" by simp
  have h3: "\<forall>v \<in> set (dict_values ?d). v = 0 \<or> v = 1" by (simp add: dict_values_def)
  have h4: "wf_dict ?d'" by (simp add: wf_dict_def)
  have h5: "map_of ?d' = map_of ?d" by (rule ext) simp
  have mv: "majority_vote ?d = (1, 2, 1)"
    by (simp add: majority_vote_def dict_values_def py_count_def)
  note T = majority_vote_majority [OF h1 h2 h3]
  from T have eq: "majority_vote ?d =
           (if card {k. map_of ?d k = Some 1} > card {k. map_of ?d k = Some 0} then 1 else 0,
            int (card {k. map_of ?d k = Some 1}), int (card {k. map_of ?d k = Some 0}))"
    by (rule conjunct1)
  from eq have c1: "int (card {k. map_of ?d k = Some 1}) = 2"
    and c0: "int (card {k. map_of ?d k = Some 0}) = 1"
    unfolding mv by (simp_all only: prod.inject)
  from T h4 h5 have ord: "majority_vote ?d' = majority_vote ?d" by blast
  have h3': "set (dict_values ?d) \<subseteq> {0, 1}" by (simp add: dict_values_def)
  show ?thesis using h1 h2 h3' mv c1 c0 ord by blast
qed

text \<open>
  C2: when all the labels of the dictionary are 0 or 1, the counts returned by the
  aggregator add up to the number of entries.
\<close>

theorem majority_vote_counts_sum:
  assumes "\<forall>v \<in> set (dict_values d). v = 0 \<or> v = 1"
  shows "(case majority_vote d of (final, ones, zeros) \<Rightarrow> ones + zeros = int (length d))"
  using count_binary [of "map snd d"] assms
  by (simp add: majority_vote_def dict_values_def py_count_def Let_def)

theorem majority_vote_counts_sum_witness:
  "set (dict_values [(''A'', 1::int), (''B'', 0), (''C'', 1)]) \<subseteq> {0, 1}
   \<and> (case majority_vote [(''A'', 1), (''B'', 0), (''C'', 1)] of
        (final, ones, zeros) \<Rightarrow> ones + zeros = int (length [(''A'', 1::int), (''B'', 0), (''C'', 1)]))
   \<and> majority_vote [(''A'', 1), (''B'', 0), (''C'', 1)] = (1, 2, 1)"
proof -
  let ?d = "[(''A'', 1::int), (''B'', 0), (''C'', 1)]"
  have h: "\<forall>v \<in> set (dict_values ?d). v = 0 \<or> v = 1" by (simp add: dict_values_def)
  have mv: "majority_vote ?d = (1, 2, 1)"
    by (simp add: majority_vote_def dict_values_def py_count_def)
  have h': "set (dict_values ?d) \<subseteq> {0, 1}" by (simp add: dict_values_def)
  show ?thesis using h' majority_vote_counts_sum [OF h] mv by blast
qed

text \<open>
  C3: the aggregator gives the outputs of the three test vectors. The mapping
  \<open>{A:1,B:1,C:0,D:0}\<close> is a tie and gives final label 0 with ones = 2 and zeros = 2;
  \<open>{A:1,B:1,C:1,D:0}\<close> gives final label 1 with ones = 3 and zeros = 1; the single-entry
  mapping \<open>{A:1}\<close> gives final label 1 with ones = 1 and zeros = 0.
\<close>

theorem majority_vote_test_vectors:
  "majority_vote [(''A'', 1), (''B'', 1), (''C'', 0), (''D'', 0)] = (0, 2, 2)
   \<and> majority_vote [(''A'', 1), (''B'', 1), (''C'', 1), (''D'', 0)] = (1, 3, 1)
   \<and> majority_vote [(''A'', 1)] = (1, 1, 0)"
  by (simp add: majority_vote_def dict_values_def py_count_def)

text \<open>
  C4: on the empty mapping the aggregator does not fail; it returns ones = 0, zeros = 0
  and final label 0.
\<close>

theorem majority_vote_empty:
  "majority_vote ([] :: (string, int) dict) = (0, 0, 0)"
  by (simp add: majority_vote_def dict_values_def py_count_def)

subsection \<open>Effects on the store\<close>

lemma deref_Some_less: "deref s r = Some ob \<Longrightarrow> r < length s"
  by (simp add: deref_def split: if_splits)

lemma majority_vote_st_eq:
  assumes "deref s r = Some (DictObj d)"
  shows "majority_vote_st s r = Inr (majority_vote d, s @ [ListObj (dict_values d)])"
  using assms
  by (simp add: majority_vote_st_def majority_vote_def alloc_def deref_def Let_def)

text \<open>
  C7: the aggregator is a pure function of the dictionary it is given. Called on a store
  in which \<open>r\<close> refers to the dictionary \<open>d\<close>, it returns the triple that depends on
  \<open>d\<close> alone, every object that was in the store before the call is unchanged after it,
  and a second call on the resulting store returns the same triple.
\<close>

theorem majority_vote_st_pure:
  assumes "deref s r = Some (DictObj d)"
  shows "\<exists>s1. majority_vote_st s r = Inr (majority_vote d, s1)
           \<and> (\<forall>a < length s. deref s1 a = deref s a)
           \<and> (\<exists>s2. majority_vote_st s1 r = Inr (majority_vote d, s2))"
proof -
  let ?s1 = "s @ [ListObj (dict_values d)]"
  have r: "r < length s" using assms by (rule deref_Some_less)
  have old: "\<forall>a < length s. deref ?s1 a = deref s a"
    by (simp add: deref_def nth_append)
  with r assms have "deref ?s1 r = Some (DictObj d)" by simp
  then have "majority_vote_st ?s1 r = Inr (majority_vote d, ?s1 @ [ListObj (dict_values d)])"
    by (rule majority_vote_st_eq)
  with majority_vote_st_eq [OF assms] old show ?thesis by blast
qed

theorem majority_vote_st_pure_witness:
  "deref [ListObj [5], DictObj [(''A'', 1), (''B'', 0), (''C'', 1)]] 1
     = Some (DictObj [(''A'', 1), (''B'', 0), (''C'', 1)])
   \<and> (\<exists>s1. majority_vote_st [ListObj [5], DictObj [(''A'', 1), (''B'', 0), (''C'', 1)]] 1
              = Inr ((1, 2, 1), s1)
         \<and> deref s1 0 = Some (ListObj [5])
         \<and> deref s1 1 = Some (DictObj [(''A'', 1), (''B'', 0), (''C'', 1)])
         \<and> (\<exists>s2. majority_vote_st s1 1 = Inr ((1, 2, 1), s2)))"
proof -
  let ?d = "[(''A'', 1::int), (''B'', 0), (''C'', 1)]"
  let ?s = "[ListObj [5], DictObj ?d]"
  have h: "deref ?s 1 = Some (DictObj ?d)" by (simp add: deref_def)
  have mv: "majority_vote ?d = (1, 2, 1)"
    by (simp add: majority_vote_def dict_values_def py_count_def)
  from majority_vote_st_pure [OF h] obtain s1 where
    a: "majority_vote_st ?s 1 = Inr (majority_vote ?d, s1)"
    and b: "\<forall>a < length ?s. deref s1 a = deref ?s a"
    and c: "\<exists>s2. majority_vote_st s1 1 = Inr (majority_vote ?d, s2)" by blast
  from b have "deref s1 0 = deref ?s 0" "deref s1 1 = deref ?s 1" by simp_all
  then have "deref s1 0 = Some (ListObj [5])" "deref s1 1 = Some (DictObj ?d)"
    by (simp_all add: deref_def)
  with a c h show ?thesis unfolding mv by blast
qed

text \<open>
  C9: the aggregator is total on dictionaries with arbitrary integer labels. On every
  store in which the reference names a dictionary it returns, without an error, and the
  final label is 0 or 1; ones is the number of entries labelled 1 and zeros the number
  of entries labelled 0, so an entry with any other label is counted in neither, and the
  three kinds of entries together are all the entries.
\<close>

theorem majority_vote_total:
  "(\<forall>s r. deref s r = Some (DictObj d)
       \<longrightarrow> (\<exists>s1. majority_vote_st s r = Inr (majority_vote d, s1)))
   \<and> (case majority_vote d of (final, ones, zeros) \<Rightarrow>
        (final = 0 \<or> final = 1)
        \<and> ones = int (length (filter (\<lambda>(k, v). v = 1) d))
        \<and> zeros = int (length (filter (\<lambda>(k, v). v = 0) d))
        \<and> ones + zeros + int (length (filter (\<lambda>(k, v). v \<noteq> 0 \<and> v \<noteq> 1) d)) = int (length d))"
proof
  show "\<forall>s r. deref s r = Some (DictObj d)
       \<longrightarrow> (\<exists>s1. majority_vote_st s r = Inr (majority_vote d, s1))"
    by (blast intro: majority_vote_st_eq)
next
  show "case majority_vote d of (final, ones, zeros) \<Rightarrow>
        (final = 0 \<or> final = 1)
        \<and> ones = int (length (filter (\<lambda>(k, v). v = 1) d))
        \<and> zeros = int (length (filter (\<lambda>(k, v). v = 0) d))
        \<and> ones + zeros + int (length (filter (\<lambda>(k, v). v \<noteq> 0 \<and> v \<noteq> 1) d)) = int (length d)"
    using count_partition [of "map snd d"]
    by (simp add: majority_vote_def dict_values_def py_count_def Let_def count_list_filter
        filter_map o_def case_prod_unfold)
qed

theorem majority_vote_total_witness:
  "deref [DictObj [(''A'', 1), (''B'', 7), (''C'', - 1), (''D'', 0)]] 0
     = Some (DictObj [(''A'', 1), (''B'', 7), (''C'', - 1), (''D'', 0)])
   \<and> (\<exists>s1. majority_vote_st [DictObj [(''A'', 1), (''B'', 7), (''C'', - 1), (''D'', 0)]] 0
         = Inr ((0, 1, 1), s1))
   \<and> majority_vote [(''A'', 1), (''B'', 7), (''C'', - 1), (''D'', 0)] = (0, 1, 1)
   \<and> int (length (filter (\<lambda>(k, v). v \<noteq> 0 \<and> v \<noteq> 1)
         [(''A'', 1::int), (''B'', 7), (''C'', - 1), (''D'', 0)])) = 2"
proof -
  let ?d = "[(''A'', 1::int), (''B'', 7), (''C'', - 1), (''D'', 0)]"
  have h: "deref [DictObj ?d] 0 = Some (DictObj ?d)" by (simp add: deref_def)
  have mv: "majority_vote ?d = (0, 1, 1)"
    by (simp add: majority_vote_def dict_values_def py_count_def)
  from majority_vote_total [of ?d] h
  have "\<exists>s1. majority_vote_st [DictObj ?d] 0 = Inr (majority_vote ?d, s1)" by blast
  then show ?thesis using h mv by simp
qed

section \<open>Properties of the prediction adapter\<close>

lemma np_max_Max: "proba \<noteq> [] \<Longrightarrow> np_max proba = Inr (Max (set proba))"
  by (cases proba) (simp_all add: Max.set_eq_fold [symmetric])

lemma np_max_Inr: "np_max proba = Inr m \<Longrightarrow> proba \<noteq> [] \<and> m = Max (set proba)"
  by (cases proba) (simp_all add: Max.set_eq_fold [symmetric])

text \<open>
  C5: for a classifier without a probability-estimation method the adapter invokes
  \<open>predict\<close> only, and whenever it returns, the confidence is \<open>None\<close>: it is absent,
  and so it is not the score 0.
\<close>

theorem get_prediction_no_proba:
  assumes "predict_proba model = None"
  shows "get_prediction model X =
           ([Predict], case predict model X of [] \<Rightarrow> Inl IndexError | pred # _ \<Rightarrow> Inr (pred, None))
         \<and> (\<forall>pred conf. snd (get_prediction model X) = Inr (pred, conf)
               \<longrightarrow> conf = None \<and> conf \<noteq> Some 0)"
  using assms by (auto simp: get_prediction_def split: list.splits)

theorem get_prediction_no_proba_witness:
  "predict_proba \<lparr>predict = (\<lambda>X. [X]), predict_proba = None\<rparr> = None
   \<and> get_prediction \<lparr>predict = (\<lambda>X. [X]), predict_proba = None\<rparr> 1 = ([Predict], Inr (1, None))"
  using get_prediction_no_proba [of "\<lparr>predict = (\<lambda>X. [X]), predict_proba = None\<rparr>" 1]
  by simp

text \<open>
  C6: for a classifier with a probability-estimation method, whenever the adapter
  returns, its confidence is the greatest of the class probabilities reported for the
  feature vector; and it does return when both methods report a non-empty result.
\<close>

theorem get_prediction_confidence_max:
  assumes "predict_proba model = Some pp"
  shows "(\<forall>pred conf. snd (get_prediction model X) = Inr (pred, conf)
            \<longrightarrow> (\<exists>proba rest. pp X = proba # rest \<and> proba \<noteq> [] \<and> conf = Some (Max (set proba))))
         \<and> (\<forall>pred ps proba rest. predict model X = pred # ps \<and> pp X = proba # rest \<and> proba \<noteq> []
            \<longrightarrow> get_prediction model X
                  = ([Predict, PredictProba], Inr (pred, Some (Max (set proba)))))"
  using assms
  by (auto simp: get_prediction_def np_max_Max split: list.splits sum.splits dest: np_max_Inr)

theorem get_prediction_confidence_max_witness:
  "predict_proba \<lparr>predict = (\<lambda>X. [X]), predict_proba = Some (\<lambda>X. [[3 / 10, 7 / 10]])\<rparr>
     = Some (\<lambda>X. [[3 / 10, 7 / 10]])
   \<and> get_prediction \<lparr>predict = (\<lambda>X. [X]), predict_proba = Some (\<lambda>X. [[3 / 10, 7 / 10]])\<rparr> 1
     = ([Predict, PredictProba], Inr (1, Some (7 / 10)))"
proof -
  let ?m = "\<lparr>predict = (\<lambda>X. [X]), predict_proba = Some (\<lambda>X::int. [[3 / 10, 7 / 10 :: real]])\<rparr>"
  have h: "predict_proba ?m = Some (\<lambda>X. [[3 / 10, 7 / 10]])" by simp
  have "predict ?m 1 = 1 # [] \<and> (\<lambda>X::int. [[3 / 10, 7 / 10 :: real]]) 1 = [3 / 10, 7 / 10] # []
        \<and> [3 / 10, 7 / 10 :: real] \<noteq> []" by simp
  with get_prediction_confidence_max [OF h, of 1]
  have "get_prediction ?m 1 = ([Predict, PredictProba], Inr (1, Some (Max (set [3 / 10, 7 / 10]))))"
    by blast
  then show ?thesis by simp
qed

lemma Max_pair_bounds:
  fixes p0 p1 :: real
  assumes "0 \<le> p0" "0 \<le> p1" "p0 + p1 = 1"
  shows "1 / 2 \<le> max p0 p1 \<and> max p0 p1 \<le> 1"
  using assms by (auto simp: max_def)

lemma distribution_Max_bounds:
  fixes proba :: "real list"
  assumes "length proba = 2" "\<forall>p \<in> set proba. 0 \<le> p" "sum_list proba = 1"
  shows "1 / 2 \<le> Max (set proba) \<and> Max (set proba) \<le> 1"
proof -
  from assms(1) obtain p0 p1 where p: "proba = [p0, p1]"
    by (cases proba; cases "tl proba") auto
  with assms have "0 \<le> p0" "0 \<le> p1" "p0 + p1 = 1" by auto
  from Max_pair_bounds [OF this] show ?thesis by (simp add: p max.commute)
qed

text \<open>
  C10: when the probabilities reported for the feature vector are a distribution over
  two classes (two nonnegative numbers with sum 1), a confidence returned by the adapter
  lies between 1/2 and 1, and the adapter returns one whenever \<open>predict\<close> reports a
  label.
\<close>

theorem get_prediction_binary_confidence:
  assumes "predict_proba model = Some pp" and "pp X = proba # rest"
    and "length proba = 2" and "\<forall>p \<in> set proba. 0 \<le> p" and "sum_list proba = 1"
  shows "(\<forall>pred conf. snd (get_prediction model X) = Inr (pred, Some conf)
            \<longrightarrow> 1 / 2 \<le> conf \<and> conf \<le> 1)
         \<and> (\<forall>pred ps. predict model X = pred # ps
            \<longrightarrow> (\<exists>conf. snd (get_prediction model X) = Inr (pred, Some conf)
                   \<and> 1 / 2 \<le> conf \<and> conf \<le> 1))"
proof -
  have ne: "proba \<noteq> []" using assms(3) by auto
  note b = distribution_Max_bounds [OF assms(3-5)]
  show ?thesis using assms(1,2) b
    by (auto simp: get_prediction_def np_max_Max [OF ne] split: list.splits)
qed

theorem get_prediction_binary_confidence_witness:
  "predict_proba \<lparr>predict = (\<lambda>X. [X]), predict_proba = Some (\<lambda>X. [[3 / 10, 7 / 10]])\<rparr>
     = Some (\<lambda>X. [[3 / 10, 7 / 10]])
   \<and> (\<lambda>X::int. [[3 / 10, 7 / 10 :: real]]) 1 = [3 / 10, 7 / 10] # []
   \<and> length [3 / 10, 7 / 10 :: real] = 2
   \<and> list_all (\<lambda>p. 0 \<le> p) [3 / 10, 7 / 10 :: real]
   \<and> sum_list [3 / 10, 7 / 10 :: real] = 1
   \<and> (\<exists>conf. snd (get_prediction
          \<lparr>predict = (\<lambda>X. [X]), predict_proba = Some (\<lambda>X. [[3 / 10, 7 / 10]])\<rparr> 1)
        = Inr (1, Some conf) \<and> 1 / 2 \<le> conf \<and> conf \<le> 1)"
proof -
  let ?pp = "\<lambda>X::int. [[3 / 10, 7 / 10 :: real]]"
  let ?m = "\<lparr>predict = (\<lambda>X. [X]), predict_proba = Some ?pp\<rparr>"
  have h1: "predict_proba ?m = Some ?pp" by simp
  have h2: "?pp 1 = [3 / 10, 7 / 10] # []" by simp
  have h3: "length [3 / 10, 7 / 10 :: real] = 2" by simp
  have h4: "\<forall>p \<in> set [3 / 10, 7 / 10 :: real]. 0 \<le> p" by simp
  have h5: "sum_list [3 / 10, 7 / 10 :: real] = 1" by simp
  have h6: "predict ?m 1 = 1 # []" by simp
  from get_prediction_binary_confidence [OF h1 h2 h3 h4 h5] h6
  have "\<exists>conf. snd (get_prediction ?m 1) = Inr (1, Some conf) \<and> 1 / 2 \<le> conf \<and> conf \<le> 1"
    by blast
  moreover have "list_all (\<lambda>p. 0 \<le> p) [3 / 10, 7 / 10 :: real]" by simp
  ultimately show ?thesis using h1 h2 h3 h5 by blast
qed

section \<open>Properties of the handler\<close>

lemma strip_Nil_iff: "strip isspace s = [] \<longleftrightarrow> (\<forall>c \<in> set s. isspace c)"
proof
  assume "strip isspace s = []"
  then have "\<forall>c \<in> set (dropWhile isspace s). isspace c"
    by (simp add: strip_def dropWhile_eq_Nil_conv)
  then have "dropWhile isspace s = []"
    by (metis hd_dropWhile list.set_sel(1))
  then show "\<forall>c \<in> set s. isspace c" by (simp add: dropWhile_eq_Nil_conv)
next
  assume "\<forall>c \<in> set s. isspace c"
  then show "strip isspace s = []" by (auto simp: strip_def dest: set_dropWhileD)
qed

text \<open>
  C8: when the Detect button is pressed on a text that is empty or has whitespace only,
  the run shows the warning and does nothing else: no call of the vectorizer and no call
  of a classifier is among its events.
\<close>

theorem detect_handler_blank_input:
  assumes "\<forall>c \<in> set news_text. isspace c"
  shows "detect_handler isspace tfidf models True news_text = ([StWarning], None)
         \<and> (\<forall>e \<in> set (fst (detect_handler isspace tfidf models True news_text)).
               \<not> is_inference e)"
  using assms by (simp add: detect_handler_def strip_Nil_iff)

theorem detect_handler_blank_input_witness:
  "list_all (\<lambda>c. c = CHR '' '' \<or> c = CHR 0x0A) [CHR '' '', CHR 0x0A, CHR '' '']
   \<and> detect_handler (\<lambda>c. c = CHR '' '' \<or> c = CHR 0x0A) (\<lambda>ts. length ts)
        [(''Logistic Regression'', \<lparr>predict = (\<lambda>X. [1]), predict_proba = None\<rparr>)] True
        [CHR '' '', CHR 0x0A, CHR '' '']
      = ([StWarning], None)"
  using detect_handler_blank_input
    [of "[CHR '' '', CHR 0x0A, CHR '' '']" "\<lambda>c. c = CHR '' '' \<or> c = CHR 0x0A" "\<lambda>ts. length ts"
        "[(''Logistic Regression'', \<lparr>predict = (\<lambda>X. [1]), predict_proba = None\<rparr>)]"]
  by simp

text \<open>
  On any other text the run starts with the call of the vectorizer; one run in full, on
  two classifiers that disagree, is a tie and shows the result FAKE.
\<close>

lemma detect_handler_inference:
  assumes "\<not> (\<forall>c \<in> set news_text. isspace c)"
  shows "\<exists>tr e. detect_handler isspace tfidf models True news_text
                  = (TfidfTransform [news_text] # tr, e)"
  using assms
  by (auto simp: detect_handler_def strip_Nil_iff Let_def split: prod.splits sum.splits)

lemma detect_handler_example:
  "detect_handler (\<lambda>c. c = CHR '' '') (\<lambda>ts. length ts)
     [(''Logistic Regression'', \<lparr>predict = (\<lambda>X. [1]), predict_proba = Some (\<lambda>X. [[1 / 4, 3 / 4]])\<rparr>),
      (''SVM'', \<lparr>predict = (\<lambda>X. [0]), predict_proba = None\<rparr>)] True ''news''
   = ([TfidfTransform [''news''],
       ModelCall ''Logistic Regression'' Predict, ModelCall ''Logistic Regression'' PredictProba,
       ModelCall ''SVM'' Predict,
       StCard False 1 1, StBlank, StHeading,
       StRow ''Logistic Regression'' True (Some (3 / 4)), StRow ''SVM'' False None,
       StBlank, StCaption], None)"
  by (simp add: detect_handler_def strip_def get_prediction_def majority_vote_def
      dict_values_def py_count_def)

end
